theory Spec2Isabelle
  imports Complex_Main
begin

section \<open>The host language: numbers, strings, library functions\<close>

text \<open>
  The posture engine lives in \<^verbatim>\<open>src/script.js\<close>, class \<^verbatim>\<open>PoseDetector\<close>.
  JavaScript numbers that carry coordinates and angles are modelled as reals (ideal
  arithmetic: no rounding, no NaN, no signed zero); the millisecond clock
  \<^verbatim>\<open>Date.now()\<close> is an integer and is modelled as \<open>int\<close>. A value that may be
  \<^verbatim>\<open>undefined\<close> or \<^verbatim>\<open>null\<close> is an \<open>option\<close>.
\<close>

text \<open>
  \<^verbatim>\<open>Math.atan2(y, x)\<close> on real arguments: the angle of the point \<open>(x, y)\<close>, in
  \<open>(-\<pi>, \<pi>]\<close>, with \<^verbatim>\<open>Math.atan2(0, 0) = 0\<close>.
\<close>

definition atan2 :: "real \<Rightarrow> real \<Rightarrow> real" where
  "atan2 y x =
     (if 0 < x then arctan (y / x)
      else if x < 0 then (if 0 \<le> y then arctan (y / x) + pi else arctan (y / x) - pi)
      else if 0 < y then pi / 2
      else if y < 0 then - (pi / 2)
      else 0)"

text \<open>\<^verbatim>\<open>Math.round\<close>: to the nearest integer, halves towards \<open>+\<infinity>\<close>.\<close>

definition math_round :: "real \<Rightarrow> int" where
  "math_round v = \<lfloor>v + 1 / 2\<rfloor>"

text \<open>Decimal rendering of an integer, as a template literal \<^verbatim>\<open>${n}\<close> prints it.\<close>

fun show_nat :: "nat \<Rightarrow> string" where
  "show_nat n =
     (if n < 10 then [char_of (48 + n)]
      else show_nat (n div 10) @ [char_of (48 + n mod 10)])"

declare show_nat.simps [simp del]

definition show_int :: "int \<Rightarrow> string" where
  "show_int i = (if i < 0 then CHR ''-'' # show_nat (nat (- i)) else show_nat (nat i))"

text \<open>
  The second argument of \<^verbatim>\<open>updatePostureStatus\<close> is a number on every path but one:
  the low-visibility path passes the string \<^verbatim>\<open>'?'\<close>. \<^verbatim>\<open>Math.round('?')\<close> is NaN,
  which a template literal prints as \<^verbatim>\<open>NaN\<close>.
\<close>

datatype angle_arg = Num real | QuestionMark

fun round_text :: "angle_arg \<Rightarrow> string" where
  "round_text (Num v) = show_int (math_round v)"
| "round_text QuestionMark = ''NaN''"

text \<open>
  The degree sign of the source's template literals; the file stores it as the four
  bytes C3 82 C2 B0.
\<close>

definition degree_sign :: string where
  "degree_sign = [char_of (195::nat), char_of (130::nat), char_of (194::nat), char_of (176::nat)]"

text \<open>
  A comparison of a number with a property that may be missing: a missing property
  reads as \<^verbatim>\<open>undefined\<close>, which converts to NaN, and every comparison with NaN is false.
\<close>

fun js_ge :: "real \<Rightarrow> real option \<Rightarrow> bool" where
  "js_ge a (Some b) = (b \<le> a)"
| "js_ge a None = False"

fun js_le :: "real \<Rightarrow> real option \<Rightarrow> bool" where
  "js_le a (Some b) = (a \<le> b)"
| "js_le a None = False"

text \<open>Array indexing: an index past the end reads as \<^verbatim>\<open>undefined\<close>.\<close>

definition js_index :: "'a option list \<Rightarrow> nat \<Rightarrow> 'a option" where
  "js_index xs i = (if i < length xs then xs ! i else None)"

section \<open>Data model\<close>

text \<open>
  A pose landmark: normalised coordinates and an optional visibility. The landmark
  array may hold missing entries.
\<close>

record keypoint =
  kp_x :: real
  kp_y :: real
  visibility :: "real option"

type_synonym landmarks = "keypoint option list"

record point =
  pt_x :: real
  pt_y :: real

text \<open>The icons of \<^verbatim>\<open>updatePostureStatus\<close> (emoji in the source).\<close>

datatype icon = CheckMark | WarningSign | CrossMark | BustInSilhouette

text \<open>
  The fields of \<^verbatim>\<open>PoseDetector\<close> that the posture logic reads and writes, the DOM
  properties it assigns, and the two pieces of the environment it acts on: the number
  of \<^verbatim>\<open>audio.play()\<close> calls made so far and the timeouts scheduled with
  \<^verbatim>\<open>setTimeout\<close> that have neither fired nor been cleared. The width of the timer bar
  is kept as the number in front of the percent sign.
\<close>

record state =
  currentNeckAngle :: real
  poorPostureStartTime :: "int option"
  poorPostureDuration :: int
  alertShown :: bool
  alertTimeout :: "nat option"
  neckAngle_textContent :: string
  statusTitle_textContent :: string
  statusSubtitle_textContent :: string
  postureDisplay_className :: string
  statusIcon_textContent :: icon
  postureTimer_display :: string
  timerValue_textContent :: string
  timerFill_width :: real
  postureAlert_display :: string
  audioPlays :: nat
  pendingTimeouts :: "nat list"
  timeoutsIssued :: nat

text \<open>\<^verbatim>\<open>this.postureThresholds\<close>: an object with exactly three properties.\<close>

definition postureThresholds :: "string \<Rightarrow> real option" where
  "postureThresholds =
     (\<lambda>_. None)(''perfect'' := Some 180, ''good'' := Some 168, ''warning'' := Some 160)"

definition warningDurationThreshold :: int where
  "warningDurationThreshold = 10000"

text \<open>
  What the constructor leaves in the fields of the posture logic; no auto-hide task
  has been scheduled yet. The DOM properties come from the page, which the script does
  not fix, and the sound and the timeout handles are the browser's: a state is
  \<open>constructed\<close> whatever they are.
\<close>

definition constructed :: "state \<Rightarrow> bool" where
  "constructed s =
     (currentNeckAngle s = 180 \<and> poorPostureStartTime s = None \<and> poorPostureDuration s = 0
      \<and> \<not> alertShown s \<and> alertTimeout s = None \<and> pendingTimeouts s = [])"

text \<open>
  One constructed state, for the examples: nothing assigned in the page yet (an
  unassigned inline \<^verbatim>\<open>style.display\<close> reads as the empty string), no sound played, no
  handle issued.
\<close>

definition initialState :: state where
  "initialState =
     \<lparr> currentNeckAngle = 180,
       poorPostureStartTime = None,
       poorPostureDuration = 0,
       alertShown = False,
       alertTimeout = None,
       neckAngle_textContent = [],
       statusTitle_textContent = [],
       statusSubtitle_textContent = [],
       postureDisplay_className = [],
       statusIcon_textContent = BustInSilhouette,
       postureTimer_display = [],
       timerValue_textContent = [],
       timerFill_width = 0,
       postureAlert_display = [],
       audioPlays = 0,
       pendingTimeouts = [],
       timeoutsIssued = 0 \<rparr>"

section \<open>Timeouts\<close>

text \<open>
  \<^verbatim>\<open>setTimeout\<close> returns a fresh positive handle and leaves the task pending;
  \<^verbatim>\<open>clearTimeout\<close> removes it. A handle is truthy when it is not zero.
\<close>

definition setTimeout :: "state \<Rightarrow> nat \<times> state" where
  "setTimeout s =
     (let h = Suc (timeoutsIssued s)
      in (h, s\<lparr>timeoutsIssued := h, pendingTimeouts := pendingTimeouts s @ [h]\<rparr>))"

definition clearTimeout :: "nat \<Rightarrow> state \<Rightarrow> state" where
  "clearTimeout h s = s\<lparr>pendingTimeouts := removeAll h (pendingTimeouts s)\<rparr>"

fun truthy_handle :: "nat option \<Rightarrow> bool" where
  "truthy_handle None = False"
| "truthy_handle (Some h) = (h \<noteq> 0)"

section \<open>The alert\<close>

definition hidePostureAlert :: "state \<Rightarrow> state" where
  "hidePostureAlert s =
     (if alertShown s then
        (let s1 = s\<lparr>postureAlert_display := ''none'', alertShown := False\<rparr>
         in case alertTimeout s1 of
              None \<Rightarrow> s1
            | Some h \<Rightarrow>
                if truthy_handle (Some h) then (clearTimeout h s1)\<lparr>alertTimeout := None\<rparr>
                else s1)
      else s)"

definition showPostureAlert :: "state \<Rightarrow> state" where
  "showPostureAlert s =
     (if \<not> alertShown s then
        (let s1 = s\<lparr>postureAlert_display := ''block'', alertShown := True,
                     audioPlays := Suc (audioPlays s)\<rparr>;
             s2 = (case alertTimeout s1 of
                     None \<Rightarrow> s1
                   | Some h \<Rightarrow> if truthy_handle (Some h) then clearTimeout h s1 else s1);
             (h', s3) = setTimeout s2
         in s3\<lparr>alertTimeout := Some h'\<rparr>)
      else s)"

text \<open>
  The body of the callback given to \<^verbatim>\<open>setTimeout\<close>, and the event of a pending
  timeout firing (the task leaves the pending list and its callback runs).
\<close>

definition autoHideCallback :: "state \<Rightarrow> state" where
  "autoHideCallback s =
     (if js_le (currentNeckAngle s) (postureThresholds ''fair'') then hidePostureAlert s
      else s)"

definition fireTimeout :: "nat \<Rightarrow> state \<Rightarrow> state" where
  "fireTimeout h s =
     (if h \<in> set (pendingTimeouts s)
      then autoHideCallback (s\<lparr>pendingTimeouts := removeAll h (pendingTimeouts s)\<rparr>)
      else s)"

section \<open>Status, timer and persistence\<close>

definition icons :: "string \<Rightarrow> icon option" where
  "icons =
     (\<lambda>_. None)(''good'' := Some CheckMark, ''fair'' := Some WarningSign,
                  ''poor'' := Some CrossMark, ''unknown'' := Some BustInSilhouette)"

definition updatePostureStatus ::
  "string \<Rightarrow> angle_arg \<Rightarrow> string \<Rightarrow> string \<Rightarrow> state \<Rightarrow> state" where
  "updatePostureStatus quality angle title subtitle s =
     s\<lparr> neckAngle_textContent := round_text angle @ degree_sign,
        statusTitle_textContent := title,
        statusSubtitle_textContent := subtitle,
        postureDisplay_className := ''posture-display '' @ quality,
        statusIcon_textContent :=
          (case icons quality of Some i \<Rightarrow> i | None \<Rightarrow> BustInSilhouette) \<rparr>"

definition resetPoorPostureTimer :: "state \<Rightarrow> state" where
  "resetPoorPostureTimer s =
     hidePostureAlert
       (s\<lparr>poorPostureStartTime := None, poorPostureDuration := 0,
          postureTimer_display := ''none''\<rparr>)"

definition updatePostureTimer :: "state \<Rightarrow> state" where
  "updatePostureTimer s =
     (case poorPostureStartTime s of
        None \<Rightarrow> s
      | Some _ \<Rightarrow>
          (let seconds = \<lfloor>real_of_int (poorPostureDuration s) / 1000\<rfloor>;
               progress =
                 min (real_of_int (poorPostureDuration s) / real_of_int warningDurationThreshold) 1
           in s\<lparr> postureTimer_display := ''block'',
                 timerValue_textContent := show_int seconds @ ''s'',
                 timerFill_width := progress * 100 \<rparr>))"

text \<open>\<^verbatim>\<open>currentTime\<close> is the value \<^verbatim>\<open>Date.now()\<close> returns in this call.\<close>

definition handlePosturePersistence :: "int \<Rightarrow> state \<Rightarrow> state" where
  "handlePosturePersistence currentTime s =
     (if js_ge (currentNeckAngle s) (postureThresholds ''good'') then
        (let subtitle = show_int (math_round (currentNeckAngle s)) @ degree_sign @ '' - Keep it up!'';
             s1 = resetPoorPostureTimer s
         in updatePostureStatus ''good'' (Num (currentNeckAngle s1)) ''Excellent Posture!'' subtitle s1)
      else if js_ge (currentNeckAngle s) (postureThresholds ''warning'') then
        (let subtitle = show_int (math_round (currentNeckAngle s)) @ degree_sign @ '' - Could be better'';
             s1 = resetPoorPostureTimer s
         in updatePostureStatus ''fair'' (Num (currentNeckAngle s1)) ''Fair Posture'' subtitle s1)
      else
        (let s1 = (case poorPostureStartTime s of
                     None \<Rightarrow> s\<lparr>poorPostureStartTime := Some currentTime, poorPostureDuration := 0\<rparr>
                   | Some t0 \<Rightarrow> s\<lparr>poorPostureDuration := currentTime - t0\<rparr>);
             remainingTime = max 0 (warningDurationThreshold - poorPostureDuration s1);
             secondsRemaining = \<lceil>real_of_int remainingTime / 1000\<rceil>;
             (title, subtitle, s2) =
               (if warningDurationThreshold \<le> poorPostureDuration s1 then
                  (''Poor Posture Alert!'',
                   show_int (math_round (currentNeckAngle s1)) @ degree_sign @ '' - Straighten up now!'',
                   showPostureAlert s1)
                else
                  (''Poor Posture Detected'',
                   show_int (math_round (currentNeckAngle s1)) @ degree_sign @ '' - Warning in ''
                     @ show_int secondsRemaining @ ''s'',
                   hidePostureAlert s1));
             s3 = updatePostureTimer s2
         in updatePostureStatus ''poor'' (Num (currentNeckAngle s3)) title subtitle s3))"

section \<open>Analysis of one frame\<close>

text \<open>
  \<^verbatim>\<open>(landmark.visibility || 1)\<close>: a missing visibility and the falsy value 0 both give 1.
\<close>

definition visibility_or_1 :: "keypoint \<Rightarrow> real" where
  "visibility_or_1 k = (case visibility k of None \<Rightarrow> 1 | Some v \<Rightarrow> if v = 0 then 1 else v)"

definition requiredLandmarks :: "landmarks \<Rightarrow> keypoint option list" where
  "requiredLandmarks lms = [js_index lms 7, js_index lms 8, js_index lms 11, js_index lms 12]"

definition hasGoodVisibility :: "landmarks \<Rightarrow> bool" where
  "hasGoodVisibility lms =
     list_all (\<lambda>landmark. case landmark of None \<Rightarrow> False | Some k \<Rightarrow> 0.6 < visibility_or_1 k)
       (requiredLandmarks lms)"

definition average :: "keypoint \<Rightarrow> keypoint \<Rightarrow> point" where
  "average a b = \<lparr> pt_x = (kp_x a + kp_x b) / 2, pt_y = (kp_y a + kp_y b) / 2 \<rparr>"

text \<open>
  The angle of lines 249 to 256, in exact real arithmetic. The code computes it in
  doubles: the values used below at 180, 0, 90 and 135 come out the same there, but a
  strict inequality between two exact angles need not survive the rounding.
\<close>

definition neckAngle :: "point \<Rightarrow> point \<Rightarrow> real" where
  "neckAngle avgEar avgShoulder =
     (let deltaX = pt_x avgEar - pt_x avgShoulder;
          deltaY = pt_y avgShoulder - pt_y avgEar;
          angle = atan2 \<bar>deltaX\<bar> deltaY * (180 / pi)
      in 180 - \<bar>angle\<bar>)"

text \<open>
  \<^verbatim>\<open>analyzePosePosture\<close>. The drawing call at its end paints the canvas and touches
  none of the fields above. The last case cannot be reached: the visibility check
  has excluded missing landmarks.
\<close>

definition analyzePosePosture :: "landmarks \<Rightarrow> int \<Rightarrow> state \<Rightarrow> state" where
  "analyzePosePosture lms currentTime s =
     (if \<not> hasGoodVisibility lms then
        resetPoorPostureTimer
          (updatePostureStatus ''unknown'' QuestionMark ''Keypoints not visible''
             ''Position yourself within the frame'' s)
      else
        (case (js_index lms 7, js_index lms 8, js_index lms 11, js_index lms 12) of
           (Some leftEar, Some rightEar, Some leftShoulder, Some rightShoulder) \<Rightarrow>
             (let avgEar = average leftEar rightEar;
                  avgShoulder = average leftShoulder rightShoulder
              in handlePosturePersistence currentTime
                   (s\<lparr>currentNeckAngle := neckAngle avgEar avgShoulder\<rparr>))
         | _ \<Rightarrow> s))"

text \<open>
  \<^verbatim>\<open>onResults\<close> calls \<^verbatim>\<open>analyzePosePosture\<close> for each result that has landmarks:
  frames are analysed one at a time, each with the clock value of its call.
\<close>

fun processFrames :: "(landmarks \<times> int) list \<Rightarrow> state \<Rightarrow> state" where
  "processFrames [] s = s"
| "processFrames ((lms, t) # fs) s = processFrames fs (analyzePosePosture lms t s)"

text \<open>\<^verbatim>\<open>stopCamera\<close>, as far as the fields above go.\<close>

definition stopCamera :: "state \<Rightarrow> state" where
  "stopCamera s = resetPoorPostureTimer s"

text \<open>The states the page can be in.\<close>

inductive reachable :: "state \<Rightarrow> bool" where
  start: "constructed s \<Longrightarrow> reachable s"
| frame: "reachable s \<Longrightarrow> reachable (analyzePosePosture lms t s)"
| timeout: "reachable s \<Longrightarrow> reachable (fireTimeout h s)"
| stop: "reachable s \<Longrightarrow> reachable (stopCamera s)"

section \<open>Frames and streaks, as the properties speak of them\<close>

text \<open>
  The angle \<^verbatim>\<open>analyzePosePosture\<close> assigns to \<^verbatim>\<open>currentNeckAngle\<close> for a frame, when
  the frame passes the visibility check; \<open>None\<close> when it does not.
\<close>

definition frameNeckAngle :: "landmarks \<Rightarrow> real option" where
  "frameNeckAngle lms =
     (if hasGoodVisibility lms then
        (case (js_index lms 7, js_index lms 8, js_index lms 11, js_index lms 12) of
           (Some leftEar, Some rightEar, Some leftShoulder, Some rightShoulder) \<Rightarrow>
             Some (neckAngle (average leftEar rightEar) (average leftShoulder rightShoulder))
         | _ \<Rightarrow> None)
      else None)"

text \<open>
  A frame that \<^verbatim>\<open>handlePosturePersistence\<close> sends down its last branch: it passes the
  visibility check and its angle fails both threshold tests.
\<close>

definition isPoorFrame :: "landmarks \<Rightarrow> bool" where
  "isPoorFrame lms =
     (case frameNeckAngle lms of
        None \<Rightarrow> False
      | Some a \<Rightarrow> \<not> js_ge a (postureThresholds ''good'') \<and> \<not> js_ge a (postureThresholds ''warning''))"

text \<open>The duration a poor frame at time \<open>t\<close> stores, from the state before it.\<close>

definition dwell :: "int \<Rightarrow> state \<Rightarrow> int" where
  "dwell t s = (case poorPostureStartTime s of None \<Rightarrow> 0 | Some t0 \<Rightarrow> t - t0)"

text \<open>
  The averaged ear and the averaged shoulder of a frame that passes the visibility
  check; \<open>None\<close> for a frame that does not.
\<close>

definition averagedPoints :: "landmarks \<Rightarrow> (point \<times> point) option" where
  "averagedPoints lms =
     (if hasGoodVisibility lms then
        (case (js_index lms 7, js_index lms 8, js_index lms 11, js_index lms 12) of
           (Some leftEar, Some rightEar, Some leftShoulder, Some rightShoulder) \<Rightarrow>
             Some (average leftEar rightEar, average leftShoulder rightShoulder)
         | _ \<Rightarrow> None)
      else None)"

text \<open>
  What holds of the alert in every state the page can be in (\<open>reachable_consistent\<close>).
  While the alert is up, the banner is displayed, the handle of the auto-hide task is
  kept and is the only task that can be pending, and a streak of at least 10000 ms
  is open. While it is down, no handle is kept and nothing is pending.
\<close>

definition alertConsistent :: "state \<Rightarrow> bool" where
  "alertConsistent s =
     (if alertShown s then
        postureAlert_display s = ''block''
        \<and> (case alertTimeout s of
              None \<Rightarrow> False
            | Some h \<Rightarrow> h \<noteq> 0 \<and> removeAll h (pendingTimeouts s) = [])
        \<and> poorPostureStartTime s \<noteq> None
        \<and> 10000 \<le> poorPostureDuration s
      else
        alertTimeout s = None \<and> pendingTimeouts s = [])"

section \<open>Concrete frames\<close>

text \<open>
  A full pose has 33 landmarks; only the ears (7, 8) and the shoulders (11, 12) matter
  here.
\<close>

definition landmark :: "real \<Rightarrow> real \<Rightarrow> real \<Rightarrow> keypoint" where
  "landmark px py v = \<lparr> kp_x = px, kp_y = py, visibility = Some v \<rparr>"

definition poseFrame :: "keypoint \<Rightarrow> keypoint \<Rightarrow> keypoint \<Rightarrow> keypoint \<Rightarrow> landmarks" where
  "poseFrame leftEar rightEar leftShoulder rightShoulder =
     map Some
       (replicate 7 (landmark 0.5 0.2 0.9)
        @ [leftEar, rightEar, landmark 0.5 0.3 0.9, landmark 0.5 0.3 0.9, leftShoulder, rightShoulder]
        @ replicate 20 (landmark 0.5 0.8 0.9))"

text \<open>Ears straight above the shoulders.\<close>

definition uprightFrame :: landmarks where
  "uprightFrame = poseFrame (landmark 0.5 0.25 0.9) (landmark 0.5 0.25 0.9)
                            (landmark 0.5 0.5 0.9) (landmark 0.5 0.5 0.9)"

text \<open>Ears as far forward of the shoulders as they are above them.\<close>

definition slouchFrame :: landmarks where
  "slouchFrame = poseFrame (landmark 0.75 0.25 0.9) (landmark 0.75 0.25 0.9)
                           (landmark 0.5 0.5 0.9) (landmark 0.5 0.5 0.9)"

text \<open>The state after ten seconds of slouching: the alert is up.\<close>

definition alertedState :: state where
  "alertedState = processFrames [(slouchFrame, 0), (slouchFrame, 10000)] initialState"

text \<open>Eleven seconds of slouching, in four frames.\<close>

definition longSlouch :: "(landmarks \<times> int) list" where
  "longSlouch = [(slouchFrame, 0), (slouchFrame, 5000), (slouchFrame, 10000), (slouchFrame, 11000)]"

text \<open>Ears above the shoulders, leaning forward by the angle \<open>\<theta>\<close> (in radians).\<close>

definition tiltedFrame :: "real \<Rightarrow> landmarks" where
  "tiltedFrame \<theta> =
     poseFrame (landmark (0.5 + 0.25 * tan \<theta>) 0.25 0.9) (landmark (0.5 + 0.25 * tan \<theta>) 0.25 0.9)
               (landmark 0.5 0.5 0.9) (landmark 0.5 0.5 0.9)"

text \<open>Ears straight below the shoulders.\<close>

definition invertedFrame :: landmarks where
  "invertedFrame = poseFrame (landmark 0.5 0.75 0.9) (landmark 0.5 0.75 0.9)
                             (landmark 0.5 0.25 0.9) (landmark 0.5 0.25 0.9)"






text \<open>The upright pose with the left ear at visibility 0.5.\<close>

definition hiddenFrame :: landmarks where
  "hiddenFrame = poseFrame (landmark 0.5 0.25 0.5) (landmark 0.5 0.25 0.9)
                           (landmark 0.5 0.5 0.9) (landmark 0.5 0.5 0.9)"

text \<open>The upright pose with the left ear at visibility 0.\<close>

definition occludedEarFrame :: landmarks where
  "occludedEarFrame = poseFrame (landmark 0.5 0.25 0) (landmark 0.5 0.25 0.9)
                                (landmark 0.5 0.5 0.9) (landmark 0.5 0.5 0.9)"

text \<open>The state after one slouching frame.\<close>

definition slouchedState :: state where
  "slouchedState = analyzePosePosture slouchFrame 0 initialState"

section \<open>Basic facts\<close>

lemma thresholds [simp]:
  "postureThresholds ''good'' = Some 168"
  "postureThresholds ''warning'' = Some 160"
  "postureThresholds ''fair'' = None"
  by (simp_all add: postureThresholds_def)

lemma gate_present:
  assumes "hasGoodVisibility lms"
  shows "\<exists>le re ls rs. js_index lms 7 = Some le \<and> js_index lms 8 = Some re
           \<and> js_index lms 11 = Some ls \<and> js_index lms 12 = Some rs"
  using assms by (auto simp: hasGoodVisibility_def requiredLandmarks_def split: option.splits)

lemma analyze_by_angle:
  "analyzePosePosture lms t s =
     (case frameNeckAngle lms of
        None \<Rightarrow> resetPoorPostureTimer
                  (updatePostureStatus ''unknown'' QuestionMark ''Keypoints not visible''
                     ''Position yourself within the frame'' s)
      | Some a \<Rightarrow> handlePosturePersistence t (s\<lparr>currentNeckAngle := a\<rparr>))"
proof (cases "hasGoodVisibility lms")
  case True
  from gate_present [OF True] obtain le re ls rs where
    "js_index lms 7 = Some le" "js_index lms 8 = Some re"
    "js_index lms 11 = Some ls" "js_index lms 12 = Some rs" by blast
  with True show ?thesis
    by (simp add: analyzePosePosture_def frameNeckAngle_def)
next
  case False
  then show ?thesis by (simp add: analyzePosePosture_def frameNeckAngle_def)
qed

lemma hide_fields [simp]:
  "poorPostureStartTime (hidePostureAlert s) = poorPostureStartTime s"
  "poorPostureDuration (hidePostureAlert s) = poorPostureDuration s"
  "currentNeckAngle (hidePostureAlert s) = currentNeckAngle s"
  "audioPlays (hidePostureAlert s) = audioPlays s"
  "postureTimer_display (hidePostureAlert s) = postureTimer_display s"
  "alertShown (hidePostureAlert s) = False"
  by (simp_all add: hidePostureAlert_def clearTimeout_def Let_def split: option.splits)

lemma show_fields [simp]:
  "poorPostureStartTime (showPostureAlert s) = poorPostureStartTime s"
  "poorPostureDuration (showPostureAlert s) = poorPostureDuration s"
  "currentNeckAngle (showPostureAlert s) = currentNeckAngle s"
  "audioPlays (showPostureAlert s) = (if alertShown s then audioPlays s else Suc (audioPlays s))"
  "postureTimer_display (showPostureAlert s) = postureTimer_display s"
  "alertShown (showPostureAlert s) = True"
  "postureAlert_display (showPostureAlert s) = (if alertShown s then postureAlert_display s else ''block'')"
  by (simp_all add: showPostureAlert_def clearTimeout_def setTimeout_def Let_def split: option.splits)

lemma update_timer_fields [simp]:
  "poorPostureStartTime (updatePostureTimer s) = poorPostureStartTime s"
  "poorPostureDuration (updatePostureTimer s) = poorPostureDuration s"
  "currentNeckAngle (updatePostureTimer s) = currentNeckAngle s"
  "audioPlays (updatePostureTimer s) = audioPlays s"
  "alertShown (updatePostureTimer s) = alertShown s"
  "postureAlert_display (updatePostureTimer s) = postureAlert_display s"
  by (simp_all add: updatePostureTimer_def Let_def split: option.splits)

lemma update_timer_shown:
  "poorPostureStartTime s = Some t0 \<Longrightarrow>
     postureTimer_display (updatePostureTimer s) = ''block''
     \<and> timerValue_textContent (updatePostureTimer s)
         = show_int \<lfloor>real_of_int (poorPostureDuration s) / 1000\<rfloor> @ ''s''
     \<and> timerFill_width (updatePostureTimer s)
         = min (real_of_int (poorPostureDuration s) / 10000) 1 * 100"
  by (simp add: updatePostureTimer_def Let_def warningDurationThreshold_def)

lemma status_fields [simp]:
  "poorPostureStartTime (updatePostureStatus q a ti su s) = poorPostureStartTime s"
  "poorPostureDuration (updatePostureStatus q a ti su s) = poorPostureDuration s"
  "currentNeckAngle (updatePostureStatus q a ti su s) = currentNeckAngle s"
  "audioPlays (updatePostureStatus q a ti su s) = audioPlays s"
  "alertShown (updatePostureStatus q a ti su s) = alertShown s"
  "alertTimeout (updatePostureStatus q a ti su s) = alertTimeout s"
  "pendingTimeouts (updatePostureStatus q a ti su s) = pendingTimeouts s"
  "postureAlert_display (updatePostureStatus q a ti su s) = postureAlert_display s"
  "postureTimer_display (updatePostureStatus q a ti su s) = postureTimer_display s"
  "timerValue_textContent (updatePostureStatus q a ti su s) = timerValue_textContent s"
  "timerFill_width (updatePostureStatus q a ti su s) = timerFill_width s"
  "statusTitle_textContent (updatePostureStatus q a ti su s) = ti"
  "statusSubtitle_textContent (updatePostureStatus q a ti su s) = su"
  "postureDisplay_className (updatePostureStatus q a ti su s) = ''posture-display '' @ q"
  "neckAngle_textContent (updatePostureStatus q a ti su s) = round_text a @ degree_sign"
  by (simp_all add: updatePostureStatus_def)

lemma hpp_poor:
  assumes "currentNeckAngle s < 160"
  shows "poorPostureStartTime (handlePosturePersistence t s)
           = Some (case poorPostureStartTime s of None \<Rightarrow> t | Some t0 \<Rightarrow> t0)"
    and "poorPostureDuration (handlePosturePersistence t s) = dwell t s"
    and "postureTimer_display (handlePosturePersistence t s) = ''block''"
    and "timerValue_textContent (handlePosturePersistence t s)
           = show_int \<lfloor>real_of_int (dwell t s) / 1000\<rfloor> @ ''s''"
    and "timerFill_width (handlePosturePersistence t s)
           = min (real_of_int (dwell t s) / 10000) 1 * 100"
    and "alertShown (handlePosturePersistence t s) = (10000 \<le> dwell t s)"
    and "audioPlays (handlePosturePersistence t s)
           = (if 10000 \<le> dwell t s \<and> \<not> alertShown s then Suc (audioPlays s) else audioPlays s)"
    and "statusTitle_textContent (handlePosturePersistence t s)
           = (if 10000 \<le> dwell t s then ''Poor Posture Alert!'' else ''Poor Posture Detected'')"
    and "postureDisplay_className (handlePosturePersistence t s) = ''posture-display poor''"
    and "currentNeckAngle (handlePosturePersistence t s) = currentNeckAngle s"
  using assms
  by (simp_all add: handlePosturePersistence_def dwell_def Let_def warningDurationThreshold_def
      update_timer_shown split: option.splits)

lemma poor_frame_step:
  assumes "isPoorFrame lms"
  shows "\<exists>a. a < 160 \<and>
           (\<forall>t s. analyzePosePosture lms t s = handlePosturePersistence t (s\<lparr>currentNeckAngle := a\<rparr>))"
proof -
  from assms obtain a where a: "frameNeckAngle lms = Some a" "a < 160"
    by (auto simp: isPoorFrame_def split: option.splits)
  have "analyzePosePosture lms t s = handlePosturePersistence t (s\<lparr>currentNeckAngle := a\<rparr>)" for t s
    by (simp add: analyze_by_angle a)
  with a show ?thesis by blast
qed

lemma poor_frame_fields:
  assumes "isPoorFrame lms"
  shows "poorPostureStartTime (analyzePosePosture lms t s)
           = Some (case poorPostureStartTime s of None \<Rightarrow> t | Some t0 \<Rightarrow> t0)"
    and "poorPostureDuration (analyzePosePosture lms t s) = dwell t s"
    and "postureTimer_display (analyzePosePosture lms t s) = ''block''"
    and "timerValue_textContent (analyzePosePosture lms t s)
           = show_int \<lfloor>real_of_int (dwell t s) / 1000\<rfloor> @ ''s''"
    and "timerFill_width (analyzePosePosture lms t s)
           = min (real_of_int (dwell t s) / 10000) 1 * 100"
    and "alertShown (analyzePosePosture lms t s) = (10000 \<le> dwell t s)"
    and "audioPlays (analyzePosePosture lms t s)
           = (if 10000 \<le> dwell t s \<and> \<not> alertShown s then Suc (audioPlays s) else audioPlays s)"
    and "statusTitle_textContent (analyzePosePosture lms t s)
           = (if 10000 \<le> dwell t s then ''Poor Posture Alert!'' else ''Poor Posture Detected'')"
    and "postureDisplay_className (analyzePosePosture lms t s) = ''posture-display poor''"
proof -
  from poor_frame_step [OF assms] obtain a where a: "a < 160"
    and step: "\<And>t s. analyzePosePosture lms t s = handlePosturePersistence t (s\<lparr>currentNeckAngle := a\<rparr>)"
    by blast
  let ?s = "s\<lparr>currentNeckAngle := a\<rparr>"
  have lt: "currentNeckAngle ?s < 160" using a by simp
  have d: "dwell t ?s = dwell t s" by (simp add: dwell_def)
  show "poorPostureStartTime (analyzePosePosture lms t s)
           = Some (case poorPostureStartTime s of None \<Rightarrow> t | Some t0 \<Rightarrow> t0)"
    using hpp_poor(1) [OF lt, of t] by (simp add: step)
  show "poorPostureDuration (analyzePosePosture lms t s) = dwell t s"
    using hpp_poor(2) [OF lt, of t] by (simp add: step d)
  show "postureTimer_display (analyzePosePosture lms t s) = ''block''"
    using hpp_poor(3) [OF lt, of t] by (simp add: step)
  show "timerValue_textContent (analyzePosePosture lms t s)
           = show_int \<lfloor>real_of_int (dwell t s) / 1000\<rfloor> @ ''s''"
    using hpp_poor(4) [OF lt, of t] by (simp add: step d)
  show "timerFill_width (analyzePosePosture lms t s)
           = min (real_of_int (dwell t s) / 10000) 1 * 100"
    using hpp_poor(5) [OF lt, of t] by (simp add: step d)
  show "alertShown (analyzePosePosture lms t s) = (10000 \<le> dwell t s)"
    using hpp_poor(6) [OF lt, of t] by (simp add: step d)
  show "audioPlays (analyzePosePosture lms t s)
           = (if 10000 \<le> dwell t s \<and> \<not> alertShown s then Suc (audioPlays s) else audioPlays s)"
    using hpp_poor(7) [OF lt, of t] by (simp add: step d)
  show "statusTitle_textContent (analyzePosePosture lms t s)
           = (if 10000 \<le> dwell t s then ''Poor Posture Alert!'' else ''Poor Posture Detected'')"
    using hpp_poor(8) [OF lt, of t] by (simp add: step d)
  show "postureDisplay_className (analyzePosePosture lms t s) = ''posture-display poor''"
    using hpp_poor(9) [OF lt, of t] by (simp add: step)
qed

text \<open>A run of poor frames that continues a streak begun at \<open>t0\<close>.\<close>

lemma poor_run_continues:
  assumes "list_all (\<lambda>(lms, t). isPoorFrame lms) fs" and "fs \<noteq> []"
    and "poorPostureStartTime s = Some t0"
  shows "poorPostureStartTime (processFrames fs s) = Some t0
     \<and> poorPostureDuration (processFrames fs s) = snd (last fs) - t0
     \<and> postureTimer_display (processFrames fs s) = ''block''
     \<and> timerValue_textContent (processFrames fs s)
         = show_int \<lfloor>real_of_int (snd (last fs) - t0) / 1000\<rfloor> @ ''s''
     \<and> timerFill_width (processFrames fs s)
         = min (real_of_int (snd (last fs) - t0) / 10000) 1 * 100"
  using assms
proof (induction fs arbitrary: s)
  case Nil
  then show ?case by simp
next
  case (Cons f fs)
  obtain lms t where f: "f = (lms, t)" by (cases f)
  from Cons.prems f have poor: "isPoorFrame lms" and rest: "list_all (\<lambda>(lms, t). isPoorFrame lms) fs"
    by simp_all
  let ?s1 = "analyzePosePosture lms t s"
  have st: "poorPostureStartTime ?s1 = Some t0"
    using poor_frame_fields(1) [OF poor, of t s] Cons.prems(3) by simp
  have dw: "dwell t s = t - t0" using Cons.prems(3) by (simp add: dwell_def)
  show ?case
  proof (cases "fs = []")
    case True
    then show ?thesis
      using st dw poor_frame_fields(2,3,4,5) [OF poor, of t s] by (simp add: f)
  next
    case False
    then show ?thesis
      using Cons.IH [OF rest False st] by (simp add: f)
  qed
qed

lemma pose_frame_index:
  "js_index (poseFrame le re ls rs) 7 = Some le"
  "js_index (poseFrame le re ls rs) 8 = Some re"
  "js_index (poseFrame le re ls rs) 11 = Some ls"
  "js_index (poseFrame le re ls rs) 12 = Some rs"
  by (simp_all add: poseFrame_def js_index_def nth_append)

lemma pose_frame_gate:
  "hasGoodVisibility (poseFrame le re ls rs)
     = (0.6 < visibility_or_1 le \<and> 0.6 < visibility_or_1 re
        \<and> 0.6 < visibility_or_1 ls \<and> 0.6 < visibility_or_1 rs)"
  by (simp add: hasGoodVisibility_def requiredLandmarks_def pose_frame_index)

lemma pose_frame_angle:
  "frameNeckAngle (poseFrame le re ls rs)
     = (if hasGoodVisibility (poseFrame le re ls rs)
        then Some (neckAngle (average le re) (average ls rs)) else None)"
  by (simp add: frameNeckAngle_def pose_frame_index)

lemma upright_angle: "frameNeckAngle uprightFrame = Some 180"
  by (simp add: uprightFrame_def pose_frame_angle pose_frame_gate visibility_or_1_def
      landmark_def neckAngle_def average_def atan2_def)

lemma slouch_angle: "frameNeckAngle slouchFrame = Some 135"
  by (simp add: slouchFrame_def pose_frame_angle pose_frame_gate visibility_or_1_def
      landmark_def neckAngle_def average_def atan2_def arctan_one)

lemma slouch_poor: "isPoorFrame slouchFrame"
  by (simp add: isPoorFrame_def slouch_angle)

lemma consistent_status [simp]:
  "alertConsistent (updatePostureStatus q a ti su s) = alertConsistent s"
  by (simp add: alertConsistent_def split: option.splits)

lemma consistent_angle [simp]:
  "alertConsistent (s\<lparr>currentNeckAngle := a\<rparr>) = alertConsistent s"
  by (simp add: alertConsistent_def split: option.splits)

lemma consistent_reset:
  "alertConsistent s \<Longrightarrow> alertConsistent (resetPoorPostureTimer s)"
  by (auto simp: alertConsistent_def resetPoorPostureTimer_def hidePostureAlert_def
      clearTimeout_def Let_def split: option.splits if_splits)

lemma reset_fields:
  "alertConsistent s \<Longrightarrow>
     poorPostureStartTime (resetPoorPostureTimer s) = None
     \<and> poorPostureDuration (resetPoorPostureTimer s) = 0
     \<and> postureTimer_display (resetPoorPostureTimer s) = ''none''
     \<and> \<not> alertShown (resetPoorPostureTimer s)
     \<and> alertTimeout (resetPoorPostureTimer s) = None
     \<and> pendingTimeouts (resetPoorPostureTimer s) = []
     \<and> postureAlert_display (resetPoorPostureTimer s)
         = (if alertShown s then ''none'' else postureAlert_display s)"
  by (auto simp: alertConsistent_def resetPoorPostureTimer_def hidePostureAlert_def
      clearTimeout_def Let_def split: option.splits if_splits)

lemma consistent_timer [simp]:
  "alertConsistent (updatePostureTimer s) = alertConsistent s"
  by (simp add: alertConsistent_def updatePostureTimer_def Let_def split: option.splits)

lemma consistent_hpp:
  "alertConsistent s \<Longrightarrow> alertConsistent (handlePosturePersistence t s)"
  apply (simp add: handlePosturePersistence_def Let_def consistent_reset split: option.splits)
  apply (auto simp: alertConsistent_def hidePostureAlert_def showPostureAlert_def
      clearTimeout_def setTimeout_def warningDurationThreshold_def Let_def
      split: option.splits if_splits)
  done

lemma callback_id: "autoHideCallback s = s"
  by (simp add: autoHideCallback_def)

lemma remove_twice:
  "removeAll k xs = [] \<Longrightarrow> removeAll k (removeAll h xs) = []"
  by (induction xs) (auto split: if_splits)

lemma consistent_fire:
  "alertConsistent s \<Longrightarrow> alertConsistent (fireTimeout h s)"
  by (auto simp: fireTimeout_def callback_id alertConsistent_def remove_twice
      split: option.splits)

lemma reachable_consistent: "reachable s \<Longrightarrow> alertConsistent s"
proof (induction rule: reachable.induct)
  case (start s)
  then show ?case by (simp add: alertConsistent_def constructed_def)
next
  case (frame s lms t)
  then show ?case
    by (simp add: analyze_by_angle consistent_reset consistent_hpp split: option.splits)
next
  case (timeout s h)
  then show ?case by (simp add: consistent_fire)
next
  case (stop s)
  then show ?case by (simp add: stopCamera_def consistent_reset)
qed

lemma good_fair_frame_step:
  assumes "frameNeckAngle lms = Some a" and "160 \<le> a"
  shows "analyzePosePosture lms t s =
           updatePostureStatus (if 168 \<le> a then ''good'' else ''fair'') (Num a)
             (if 168 \<le> a then ''Excellent Posture!'' else ''Fair Posture'')
             (show_int (math_round a) @ degree_sign
                @ (if 168 \<le> a then '' - Keep it up!'' else '' - Could be better''))
             (resetPoorPostureTimer (s\<lparr>currentNeckAngle := a\<rparr>))"
proof -
  have cna: "currentNeckAngle (resetPoorPostureTimer (s\<lparr>currentNeckAngle := a\<rparr>)) = a"
    by (simp add: resetPoorPostureTimer_def)
  show ?thesis
    using assms by (simp add: analyze_by_angle handlePosturePersistence_def Let_def cna)
qed

lemma initial_constructed: "constructed initialState"
  by (simp add: constructed_def initialState_def)

lemma reachable_run: "reachable s \<Longrightarrow> reachable (processFrames fs s)"
proof (induction fs arbitrary: s)
  case Nil
  then show ?case by simp
next
  case (Cons f fs)
  obtain lms t where f: "f = (lms, t)" by (cases f)
  have "reachable (analyzePosePosture lms t s)"
    using Cons.prems by (rule reachable.frame)
  then have "reachable (processFrames fs (analyzePosePosture lms t s))"
    by (rule Cons.IH)
  then show ?case by (simp add: f)
qed

lemma alerted_reachable: "reachable alertedState"
  unfolding alertedState_def by (rule reachable_run [OF reachable.start [OF initial_constructed]])

lemma alerted_shown: "alertShown alertedState"
  by (simp add: alertedState_def poor_frame_fields [OF slouch_poor] dwell_def initialState_def)

lemma reset_simple [simp]:
  "poorPostureStartTime (resetPoorPostureTimer s) = None"
  "poorPostureDuration (resetPoorPostureTimer s) = 0"
  "postureTimer_display (resetPoorPostureTimer s) = ''none''"
  "alertShown (resetPoorPostureTimer s) = False"
  "audioPlays (resetPoorPostureTimer s) = audioPlays s"
  "currentNeckAngle (resetPoorPostureTimer s) = currentNeckAngle s"
  "postureDisplay_className (resetPoorPostureTimer s) = postureDisplay_className s"
  "statusTitle_textContent (resetPoorPostureTimer s) = statusTitle_textContent s"
  "statusSubtitle_textContent (resetPoorPostureTimer s) = statusSubtitle_textContent s"
  "neckAngle_textContent (resetPoorPostureTimer s) = neckAngle_textContent s"
  by (simp_all add: resetPoorPostureTimer_def hidePostureAlert_def clearTimeout_def Let_def
      split: option.splits)

lemma poor_frame_alert_display:
  assumes "isPoorFrame lms" and "10000 \<le> dwell t s" and "\<not> alertShown s"
  shows "postureAlert_display (analyzePosePosture lms t s) = ''block''"
proof -
  from poor_frame_step [OF assms(1)] obtain a where a: "a < 160"
    and step: "\<And>t s. analyzePosePosture lms t s = handlePosturePersistence t (s\<lparr>currentNeckAngle := a\<rparr>)"
    by blast
  show ?thesis
    using a assms(2,3)
    by (simp add: step handlePosturePersistence_def dwell_def Let_def warningDurationThreshold_def
        split: option.splits)
qed

text \<open>Poor frames that all stay under the threshold raise nothing.\<close>

lemma quiet_run:
  assumes "list_all (\<lambda>(lms, t). isPoorFrame lms \<and> t - t0 < 10000) fs"
    and "poorPostureStartTime s = Some t0"
  shows "audioPlays (processFrames fs s) = audioPlays s
     \<and> poorPostureStartTime (processFrames fs s) = Some t0
     \<and> (alertShown (processFrames fs s) \<longrightarrow> fs = [] \<and> alertShown s)"
  using assms
proof (induction fs arbitrary: s)
  case Nil
  then show ?case by simp
next
  case (Cons f fs)
  obtain lms t where f: "f = (lms, t)" by (cases f)
  from Cons.prems(1) f have poor: "isPoorFrame lms" and small: "t - t0 < 10000"
    and rest: "list_all (\<lambda>(lms, t). isPoorFrame lms \<and> t - t0 < 10000) fs" by simp_all
  let ?s1 = "analyzePosePosture lms t s"
  have dw: "dwell t s = t - t0" using Cons.prems(2) by (simp add: dwell_def)
  have st: "poorPostureStartTime ?s1 = Some t0"
    using poor_frame_fields(1) [OF poor, of t s] Cons.prems(2) by simp
  have quiet: "audioPlays ?s1 = audioPlays s" "\<not> alertShown ?s1"
    using poor_frame_fields(6,7) [OF poor, of t s] dw small by simp_all
  from Cons.IH [OF rest st] quiet show ?case by (simp add: f)
qed

lemma average_same: "average k k = \<lparr> pt_x = kp_x k, pt_y = kp_y k \<rparr>"
  by (simp add: average_def)

text \<open>The angle when the ears are above the shoulders.\<close>

lemma neck_angle_above:
  assumes "pt_y e < pt_y sh"
  shows "neckAngle e sh = 180 - arctan (\<bar>pt_x e - pt_x sh\<bar> / (pt_y sh - pt_y e)) * (180 / pi)"
proof -
  let ?q = "\<bar>pt_x e - pt_x sh\<bar> / (pt_y sh - pt_y e)"
  have "0 \<le> ?q" using assms by simp
  then have "0 \<le> arctan ?q" by (simp add: zero_le_arctan_iff)
  then have "0 \<le> arctan ?q * (180 / pi)" by simp
  then have "\<bar>arctan ?q * (180 / pi)\<bar> = arctan ?q * (180 / pi)" by (rule abs_of_nonneg)
  then show ?thesis
    using assms by (simp add: neckAngle_def atan2_def Let_def)
qed

lemma tilted_angle:
  assumes "0 \<le> \<theta>" and "\<theta> < pi / 2"
  shows "frameNeckAngle (tiltedFrame \<theta>) = Some (180 - \<theta> * (180 / pi))"
proof -
  let ?e = "\<lparr> pt_x = 0.5 + 0.25 * tan \<theta>, pt_y = 0.25 \<rparr>"
  let ?sh = "\<lparr> pt_x = 0.5, pt_y = 0.5 \<rparr>"
  have t: "0 \<le> tan \<theta>" using assms by (rule tan_pos_pi2_le)
  have at: "arctan (tan \<theta>) = \<theta>" using assms by (simp add: arctan_tan)
  have q: "\<bar>pt_x ?e - pt_x ?sh\<bar> / (pt_y ?sh - pt_y ?e) = tan \<theta>" using t by simp
  have "pt_y ?e < pt_y ?sh" by simp
  from neck_angle_above [OF this] have "neckAngle ?e ?sh = 180 - \<theta> * (180 / pi)"
    unfolding q at .
  then show ?thesis
    by (simp add: tiltedFrame_def pose_frame_angle pose_frame_gate visibility_or_1_def
        average_same landmark_def)
qed

lemma tilted_168: "frameNeckAngle (tiltedFrame (pi / 15)) = Some 168"
proof -
  have "(0::real) \<le> pi / 15" "pi / 15 < pi / 2" by simp_all
  from tilted_angle [OF this] show ?thesis by simp
qed

lemma tilted_160: "frameNeckAngle (tiltedFrame (pi / 9)) = Some 160"
proof -
  have "(0::real) \<le> pi / 9" "pi / 9 < pi / 2" by simp_all
  from tilted_angle [OF this] show ?thesis by simp
qed

lemma poor_frame_class:
  assumes "frameNeckAngle lms = Some a" and "a < 160"
  shows "postureDisplay_className (analyzePosePosture lms t s) = ''posture-display poor''"
proof -
  have "isPoorFrame lms" using assms by (simp add: isPoorFrame_def)
  from poor_frame_fields(9) [OF this] show ?thesis .
qed

lemma averaged_angle:
  "frameNeckAngle lms =
     (case averagedPoints lms of None \<Rightarrow> None | Some (e, sh) \<Rightarrow> Some (neckAngle e sh))"
  by (simp add: frameNeckAngle_def averagedPoints_def split: option.splits)

lemma pose_frame_points:
  "averagedPoints (poseFrame le re ls rs)
     = (if hasGoodVisibility (poseFrame le re ls rs)
        then Some (average le re, average ls rs) else None)"
  by (simp add: averagedPoints_def pose_frame_index)

lemma hpp_angle: "currentNeckAngle (handlePosturePersistence t s) = currentNeckAngle s"
  by (simp add: handlePosturePersistence_def Let_def split: option.splits)

lemma hpp_text:
  "neckAngle_textContent (handlePosturePersistence t s)
     = show_int (math_round (currentNeckAngle s)) @ degree_sign"
  by (simp add: handlePosturePersistence_def Let_def split: option.splits)

lemma frame_angle_stored:
  "frameNeckAngle lms = Some a \<Longrightarrow> currentNeckAngle (analyzePosePosture lms t s) = a"
  by (simp add: analyze_by_angle hpp_angle)

lemma neck_angle_vertical:
  assumes "pt_x e = pt_x sh" and "pt_y e \<le> pt_y sh"
  shows "neckAngle e sh = 180"
  using assms by (simp add: neckAngle_def atan2_def Let_def)

lemma upright_points:
  "averagedPoints uprightFrame = Some (\<lparr>pt_x = 0.5, pt_y = 0.25\<rparr>, \<lparr>pt_x = 0.5, pt_y = 0.5\<rparr>)"
  by (simp add: uprightFrame_def pose_frame_points pose_frame_gate visibility_or_1_def
      average_same landmark_def)

lemma inverted_points:
  "averagedPoints invertedFrame = Some (\<lparr>pt_x = 0.5, pt_y = 0.75\<rparr>, \<lparr>pt_x = 0.5, pt_y = 0.25\<rparr>)"
  by (simp add: invertedFrame_def pose_frame_points pose_frame_gate visibility_or_1_def
      average_same landmark_def)

lemma inverted_angle: "frameNeckAngle invertedFrame = Some 0"
  by (simp add: averaged_angle inverted_points neckAngle_def atan2_def Let_def)





lemma show_135: "show_int (math_round 135) = ''135''"
proof -
  have "math_round 135 = 135" by (simp add: math_round_def)
  moreover have "show_int 135 = ''135''" by code_simp
  ultimately show ?thesis by simp
qed

lemma hidden_gate: "\<not> hasGoodVisibility hiddenFrame"
  by (simp add: hiddenFrame_def pose_frame_gate visibility_or_1_def landmark_def)

lemma unknown_frame_step:
  "\<not> hasGoodVisibility lms \<Longrightarrow>
     analyzePosePosture lms t s =
       resetPoorPostureTimer
         (updatePostureStatus ''unknown'' QuestionMark ''Keypoints not visible''
            ''Position yourself within the frame'' s)"
  by (simp add: analyzePosePosture_def)

text \<open>When the visibility check fails, the frame is reported unknown and the streak is reset.\<close>

lemma gate_failure_resets:
  assumes "\<not> hasGoodVisibility lms"
  shows "postureDisplay_className (analyzePosePosture lms t s) = ''posture-display unknown''
     \<and> statusTitle_textContent (analyzePosePosture lms t s) = ''Keypoints not visible''
     \<and> statusSubtitle_textContent (analyzePosePosture lms t s) = ''Position yourself within the frame''
     \<and> poorPostureStartTime (analyzePosePosture lms t s) = None
     \<and> poorPostureDuration (analyzePosePosture lms t s) = 0
     \<and> postureTimer_display (analyzePosePosture lms t s) = ''none''
     \<and> \<not> alertShown (analyzePosePosture lms t s)"
  by (simp add: unknown_frame_step [OF assms])

text \<open>
  The check fails as soon as a required landmark is missing, or has a visibility that
  is at most 0.6 and is not 0.
\<close>

lemma gate_fails:
  assumes "i \<in> {7, 8, 11, 12}"
    and "case js_index lms i of None \<Rightarrow> True
         | Some k \<Rightarrow> (case visibility k of None \<Rightarrow> False | Some v \<Rightarrow> v \<le> 0.6 \<and> v \<noteq> 0)"
  shows "\<not> hasGoodVisibility lms"
  using assms
  by (auto simp: hasGoodVisibility_def requiredLandmarks_def visibility_or_1_def
      split: option.splits if_splits)

text \<open>The poor frames are the frames the code publishes as poor.\<close>

lemma poor_iff_published:
  "isPoorFrame lms \<longleftrightarrow>
     postureDisplay_className (analyzePosePosture lms t s) = ''posture-display poor''"
proof (cases "frameNeckAngle lms")
  case None
  then show ?thesis by (simp add: isPoorFrame_def analyze_by_angle)
next
  case (Some a)
  show ?thesis
  proof (cases "160 \<le> a")
    case True
    then show ?thesis by (simp add: isPoorFrame_def Some good_fair_frame_step [OF Some True])
  next
    case False
    then have lt: "a < 160" by simp
    then have "isPoorFrame lms" by (simp add: isPoorFrame_def Some)
    with poor_frame_class [OF Some lt] show ?thesis by simp
  qed
qed

section \<open>The properties\<close>

text \<open>
  C2. In a run of consecutive poor frames that starts with no streak open (after a
  frame that was not poor, or at engine start), the frame number \<open>i\<close> of the run leaves
  \<^verbatim>\<open>poorPostureStartTime\<close> at the first frame's clock value \<open>t0\<close> and
  \<^verbatim>\<open>poorPostureDuration\<close> at \<open>ti - t0\<close> (which is 0 at the first frame); the timer is
  shown, its bar is at \<open>min (duration / 10000) 1\<close> (times 100, as a percentage) and its
  label shows \<open>floor (duration / 1000)\<close> seconds.
\<close>

theorem dwell_accumulation:
  assumes "poorPostureStartTime s = None"
    and "list_all (\<lambda>(lms, t). isPoorFrame lms) fs"
    and "i < length fs"
  shows "let s' = processFrames (take (Suc i) fs) s;
             d = snd (fs ! i) - snd (fs ! 0)
         in poorPostureStartTime s' = Some (snd (fs ! 0))
            \<and> poorPostureDuration s' = d
            \<and> postureTimer_display s' = ''block''
            \<and> timerFill_width s' = min (real_of_int d / 10000) 1 * 100
            \<and> timerValue_textContent s' = show_int \<lfloor>real_of_int d / 1000\<rfloor> @ ''s''"
proof -
  from assms(3) obtain f rest where fs: "fs = f # rest" by (cases fs) auto
  obtain lms0 t0 where f: "f = (lms0, t0)" by (cases f)
  from assms(2) fs f have poor0: "isPoorFrame lms0"
    and poor_rest: "list_all (\<lambda>(lms, t). isPoorFrame lms) rest" by simp_all
  let ?s1 = "analyzePosePosture lms0 t0 s"
  have dw: "dwell t0 s = 0" using assms(1) by (simp add: dwell_def)
  have st: "poorPostureStartTime ?s1 = Some t0"
    using poor_frame_fields(1) [OF poor0, of t0 s] assms(1) by simp
  show ?thesis
  proof (cases i)
    case 0
    then show ?thesis
      using st dw poor_frame_fields(2,3,4,5) [OF poor0, of t0 s] by (simp add: fs f)
  next
    case (Suc j)
    with assms(3) fs have j: "j < length rest" by simp
    let ?run = "take (Suc j) rest"
    have ne: "?run \<noteq> []" using j by (cases rest) auto
    have poor_run: "list_all (\<lambda>(lms, t). isPoorFrame lms) ?run"
      using poor_rest by (auto simp: list_all_iff dest: in_set_takeD)
    have lst: "last ?run = rest ! j"
      using j by (simp add: take_Suc_conv_app_nth)
    from poor_run_continues [OF poor_run ne st] lst
    show ?thesis by (simp add: fs f Suc)
  qed
qed

theorem dwell_accumulation_witness:
  "poorPostureStartTime initialState = None
   \<and> list_all (\<lambda>(lms, t). isPoorFrame lms) [(slouchFrame, 1000), (slouchFrame, 4500), (slouchFrame, 13000)]
   \<and> poorPostureStartTime
        (processFrames [(slouchFrame, 1000), (slouchFrame, 4500), (slouchFrame, 13000)] initialState)
        = Some 1000
   \<and> poorPostureDuration
        (processFrames [(slouchFrame, 1000), (slouchFrame, 4500), (slouchFrame, 13000)] initialState)
        = 12000
   \<and> timerFill_width
        (processFrames [(slouchFrame, 1000), (slouchFrame, 4500), (slouchFrame, 13000)] initialState)
        = 100
   \<and> timerValue_textContent
        (processFrames [(slouchFrame, 1000), (slouchFrame, 4500), (slouchFrame, 13000)] initialState)
        = show_int 12 @ ''s''"
proof -
  have h1: "poorPostureStartTime initialState = None" by (simp add: initialState_def)
  have h2: "list_all (\<lambda>(lms, t). isPoorFrame lms)
              [(slouchFrame, 1000), (slouchFrame, 4500), (slouchFrame, 13000)]"
    by (simp add: slouch_poor)
  have h3: "2 < length [(slouchFrame, 1000::int), (slouchFrame, 4500), (slouchFrame, 13000)]"
    by simp
  show ?thesis
    using h1 h2 dwell_accumulation [OF h1 h2 h3] by (simp add: Let_def)
qed

text \<open>
  C4. From any state the page can be in (in particular right after a run of poor
  frames, with the alert up or not), one frame that passes the visibility check with
  an angle at or above the warning threshold is classified good or fair and leaves
  \<^verbatim>\<open>poorPostureStartTime\<close> unset, \<^verbatim>\<open>poorPostureDuration\<close> at 0, the timer hidden and the
  alert cleared: \<^verbatim>\<open>alertShown\<close> false, the banner of an alert that was up set to
  \<^verbatim>\<open>none\<close>, no handle kept and no auto-hide task pending.
\<close>

theorem recovery_resets:
  assumes "reachable s" and "frameNeckAngle lms = Some a"
    and "js_ge a (postureThresholds ''warning'')"
  shows "poorPostureStartTime (analyzePosePosture lms t s) = None
     \<and> poorPostureDuration (analyzePosePosture lms t s) = 0
     \<and> postureTimer_display (analyzePosePosture lms t s) = ''none''
     \<and> \<not> alertShown (analyzePosePosture lms t s)
     \<and> postureAlert_display (analyzePosePosture lms t s)
         = (if alertShown s then ''none'' else postureAlert_display s)
     \<and> alertTimeout (analyzePosePosture lms t s) = None
     \<and> pendingTimeouts (analyzePosePosture lms t s) = []
     \<and> postureDisplay_className (analyzePosePosture lms t s)
         = ''posture-display '' @ (if js_ge a (postureThresholds ''good'') then ''good'' else ''fair'')"
proof -
  from assms(3) have a: "160 \<le> a" by simp
  have ok: "alertConsistent (s\<lparr>currentNeckAngle := a\<rparr>)"
    using reachable_consistent [OF assms(1)] by simp
  show ?thesis
    using reset_fields [OF ok] by (simp add: good_fair_frame_step [OF assms(2) a])
qed

theorem recovery_resets_witness:
  "reachable alertedState \<and> alertShown alertedState
   \<and> poorPostureStartTime (analyzePosePosture uprightFrame 10500 alertedState) = None
   \<and> poorPostureDuration (analyzePosePosture uprightFrame 10500 alertedState) = 0
   \<and> postureTimer_display (analyzePosePosture uprightFrame 10500 alertedState) = ''none''
   \<and> \<not> alertShown (analyzePosePosture uprightFrame 10500 alertedState)
   \<and> postureAlert_display (analyzePosePosture uprightFrame 10500 alertedState) = ''none''
   \<and> pendingTimeouts (analyzePosePosture uprightFrame 10500 alertedState) = []
   \<and> postureDisplay_className (analyzePosePosture uprightFrame 10500 alertedState)
       = ''posture-display good''"
proof -
  have h: "js_ge 180 (postureThresholds ''warning'')" by simp
  show ?thesis
    using recovery_resets [OF alerted_reachable upright_angle h, of 10500]
    by (simp add: alerted_reachable alerted_shown)
qed

text \<open>
  C3. In a run of consecutive poor frames that starts with no streak open, let frame
  \<open>k\<close> be the first whose duration \<open>tk - t0\<close> reaches 10000 ms. That frame sets the
  title to \<^verbatim>\<open>Poor Posture Alert!\<close>, sets \<^verbatim>\<open>alertShown\<close>, shows the banner and plays
  the sound once: no sound was played in the run before it, exactly one has been
  played after it. And whenever \<^verbatim>\<open>alertShown\<close> is already true, a poor frame plays no
  further sound.
\<close>

theorem alert_raised_once:
  assumes "poorPostureStartTime s = None"
    and "list_all (\<lambda>(lms, t). isPoorFrame lms) fs"
    and "k < length fs"
    and "\<forall>j<k. snd (fs ! j) - snd (fs ! 0) < 10000"
    and "10000 \<le> snd (fs ! k) - snd (fs ! 0)"
  shows "statusTitle_textContent (processFrames (take (Suc k) fs) s) = ''Poor Posture Alert!''
     \<and> alertShown (processFrames (take (Suc k) fs) s)
     \<and> postureAlert_display (processFrames (take (Suc k) fs) s) = ''block''
     \<and> audioPlays (processFrames (take k fs) s) = audioPlays s
     \<and> audioPlays (processFrames (take (Suc k) fs) s) = Suc (audioPlays s)
     \<and> (\<forall>s' lms t. alertShown s' \<and> isPoorFrame lms
           \<longrightarrow> audioPlays (analyzePosePosture lms t s') = audioPlays s')"
proof -
  from assms(3) obtain f rest where fs: "fs = f # rest" by (cases fs) auto
  obtain lms0 t0 where f: "f = (lms0, t0)" by (cases f)
  from assms(5) fs f obtain j where k: "k = Suc j" by (cases k) auto
  with assms(3) fs have j: "j < length rest" by simp
  obtain lmsk tk where fk: "rest ! j = (lmsk, tk)" by (cases "rest ! j")
  from assms(2) fs f have poor0: "isPoorFrame lms0"
    and poor_rest: "list_all (\<lambda>(lms, t). isPoorFrame lms) rest" by simp_all
  have poork: "isPoorFrame lmsk"
    using poor_rest j fk by (auto simp: list_all_length)
  have late: "10000 \<le> tk - t0" using assms(5) fs f k fk by simp
  let ?s1 = "analyzePosePosture lms0 t0 s"
  have dw0: "dwell t0 s = 0" using assms(1) by (simp add: dwell_def)
  have st1: "poorPostureStartTime ?s1 = Some t0"
    using poor_frame_fields(1) [OF poor0, of t0 s] assms(1) by simp
  have quiet1: "audioPlays ?s1 = audioPlays s" "\<not> alertShown ?s1"
    using poor_frame_fields(6,7) [OF poor0, of t0 s] dw0 by simp_all
  let ?mid = "take j rest"
  have mid: "list_all (\<lambda>(lms, t). isPoorFrame lms \<and> t - t0 < 10000) ?mid"
  proof (unfold list_all_length, intro allI impI)
    fix n assume n: "n < length ?mid"
    then have nj: "n < j" and nr: "n < length rest" by simp_all
    have "isPoorFrame (fst (rest ! n))"
      using poor_rest nr by (simp add: list_all_length case_prod_beta)
    moreover have "snd (rest ! n) - t0 < 10000"
      using assms(4) nj fs f k by (auto dest: spec [of _ "Suc n"])
    ultimately show "case ?mid ! n of (lms, t) \<Rightarrow> isPoorFrame lms \<and> t - t0 < 10000"
      using n by (simp add: split_beta)
  qed
  let ?s2 = "processFrames ?mid ?s1"
  from quiet_run [OF mid st1] quiet1
  have before: "audioPlays ?s2 = audioPlays s" "poorPostureStartTime ?s2 = Some t0"
    "\<not> alertShown ?s2" by auto
  have dwk: "dwell tk ?s2 = tk - t0" using before(2) by (simp add: dwell_def)
  let ?s3 = "analyzePosePosture lmsk tk ?s2"
  have at: "statusTitle_textContent ?s3 = ''Poor Posture Alert!''" "alertShown ?s3"
    "audioPlays ?s3 = Suc (audioPlays s)"
    using poor_frame_fields(6,7,8) [OF poork, of tk ?s2] dwk late before by simp_all
  have disp: "postureAlert_display ?s3 = ''block''"
    using poor_frame_alert_display [OF poork, of tk ?s2] dwk late before(3) by simp
  have run_app: "processFrames (xs @ ys) s0 = processFrames ys (processFrames xs s0)" for xs ys s0
    by (induction xs arbitrary: s0) auto
  have tk_eq: "take (Suc k) fs = (lms0, t0) # ?mid @ [(lmsk, tk)]"
    using j fk by (simp add: fs f k take_Suc_conv_app_nth)
  have tk_before: "take k fs = (lms0, t0) # ?mid" by (simp add: fs f k)
  have later: "\<forall>s' lms t. alertShown s' \<and> isPoorFrame lms
           \<longrightarrow> audioPlays (analyzePosePosture lms t s') = audioPlays s'"
    using poor_frame_fields(7) by simp
  show ?thesis
    using at disp before(1) later by (simp add: tk_eq tk_before run_app)
qed

theorem alert_raised_once_witness:
  "poorPostureStartTime initialState = None
   \<and> list_all (\<lambda>(lms, t). isPoorFrame lms) longSlouch
   \<and> statusTitle_textContent (processFrames (take 2 longSlouch) initialState) = ''Poor Posture Detected''
   \<and> audioPlays (processFrames (take 2 longSlouch) initialState) = 0
   \<and> statusTitle_textContent (processFrames (take 3 longSlouch) initialState) = ''Poor Posture Alert!''
   \<and> alertShown (processFrames (take 3 longSlouch) initialState)
   \<and> audioPlays (processFrames (take 3 longSlouch) initialState) = 1
   \<and> audioPlays (analyzePosePosture slouchFrame 11000 (processFrames (take 3 longSlouch) initialState)) = 1"
proof -
  have h1: "poorPostureStartTime initialState = None" by (simp add: initialState_def)
  have h2: "list_all (\<lambda>(lms, t). isPoorFrame lms) longSlouch"
    by (simp add: longSlouch_def slouch_poor)
  have h3: "2 < length longSlouch" by (simp add: longSlouch_def)
  have h4: "\<forall>j<2. snd (longSlouch ! j) - snd (longSlouch ! 0) < 10000"
    by (simp add: longSlouch_def less_Suc_eq eval_nat_numeral)
  have h5: "10000 \<le> snd (longSlouch ! 2) - snd (longSlouch ! 0)"
    by (simp add: longSlouch_def)
  have a0: "audioPlays initialState = 0" by (simp add: initialState_def)
  have t2: "statusTitle_textContent (processFrames (take 2 longSlouch) initialState)
              = ''Poor Posture Detected''"
    by (simp add: longSlouch_def poor_frame_fields [OF slouch_poor] dwell_def initialState_def)
  from alert_raised_once [OF h1 h2 h3 h4 h5]
  show ?thesis
    using h1 h2 a0 t2 slouch_poor by (simp add: eval_nat_numeral)
qed

text \<open>
  C6, as amended. \<^verbatim>\<open>postureThresholds\<close> has no property \<^verbatim>\<open>fair\<close>, so the test in the
  auto-hide callback is false in every state and the callback changes nothing: a
  timeout that fires only leaves the pending list, and never takes the alert down.
  What does take it down, from a state the page can be in with the alert up and the
  streak begun at \<open>t0\<close>: a frame classified good, fair or unknown, through the reset
  path, which leaves \<^verbatim>\<open>poorPostureStartTime\<close> unset; a poor frame whose clock value \<open>t\<close>
  has \<open>t - t0 < 10000\<close>, which takes the alert down while the frame stays poor; and
  \<^verbatim>\<open>stopCamera\<close>, through the reset path and with no classification. A poor frame of
  that kind needs the clock to have gone back: as long as the clock is not behind the
  last poor frame (\<open>t0 + poorPostureDuration s \<le> t\<close>), a frame that takes the alert down
  is a good, fair or unknown one.
\<close>

theorem auto_hide_never_fires:
  "postureThresholds ''fair'' = None
   \<and> autoHideCallback s = s
   \<and> fireTimeout h s = s\<lparr>pendingTimeouts := removeAll h (pendingTimeouts s)\<rparr>
   \<and> (reachable s \<and> alertShown s \<and> poorPostureStartTime s = Some t0
        \<and> \<not> alertShown (analyzePosePosture lms t s)
      \<longrightarrow> (isPoorFrame lms \<and> t - t0 < 10000)
          \<or> (\<not> isPoorFrame lms
              \<and> poorPostureStartTime (analyzePosePosture lms t s) = None
              \<and> postureDisplay_className (analyzePosePosture lms t s)
                  \<in> {''posture-display good'', ''posture-display fair'', ''posture-display unknown''}))
   \<and> (reachable s \<and> alertShown s \<and> poorPostureStartTime s = Some t0
        \<and> t0 + poorPostureDuration s \<le> t
        \<and> \<not> alertShown (analyzePosePosture lms t s)
      \<longrightarrow> \<not> isPoorFrame lms
          \<and> poorPostureStartTime (analyzePosePosture lms t s) = None
          \<and> postureDisplay_className (analyzePosePosture lms t s)
              \<in> {''posture-display good'', ''posture-display fair'', ''posture-display unknown''})
   \<and> (isPoorFrame lms \<and> poorPostureStartTime s = Some t0 \<and> t - t0 < 10000
      \<longrightarrow> \<not> alertShown (analyzePosePosture lms t s)
          \<and> postureDisplay_className (analyzePosePosture lms t s) = ''posture-display poor'')
   \<and> \<not> alertShown (stopCamera s)
   \<and> postureDisplay_className (stopCamera s) = postureDisplay_className s"
proof -
  have cb: "autoHideCallback s' = s'" for s'
    by (simp add: autoHideCallback_def)
  have fire: "fireTimeout h s = s\<lparr>pendingTimeouts := removeAll h (pendingTimeouts s)\<rparr>"
  proof (cases "h \<in> set (pendingTimeouts s)")
    case True
    then show ?thesis by (simp add: fireTimeout_def cb)
  next
    case False
    then show ?thesis by (simp add: fireTimeout_def)
  qed
  have reset_frame: "poorPostureStartTime (analyzePosePosture lms t s) = None
          \<and> postureDisplay_className (analyzePosePosture lms t s)
              \<in> {''posture-display good'', ''posture-display fair'', ''posture-display unknown''}"
    if np: "\<not> isPoorFrame lms"
  proof (cases "frameNeckAngle lms")
    case None
    then show ?thesis by (simp add: analyze_by_angle)
  next
    case (Some a)
    with np have a: "160 \<le> a" by (auto simp: isPoorFrame_def)
    show ?thesis by (simp add: good_fair_frame_step [OF Some a])
  qed
  have poor_frame: "t - t0 < 10000"
    if "isPoorFrame lms" and "poorPostureStartTime s = Some t0"
      and "\<not> alertShown (analyzePosePosture lms t s)"
    using poor_frame_fields(6) [OF that(1), of t s] that(2,3) by (simp add: dwell_def)
  have general: "(isPoorFrame lms \<and> t - t0 < 10000)
          \<or> (\<not> isPoorFrame lms
              \<and> poorPostureStartTime (analyzePosePosture lms t s) = None
              \<and> postureDisplay_className (analyzePosePosture lms t s)
                  \<in> {''posture-display good'', ''posture-display fair'', ''posture-display unknown''})"
    if "poorPostureStartTime s = Some t0" and "\<not> alertShown (analyzePosePosture lms t s)"
    using poor_frame [OF _ that] reset_frame by blast
  have steady: "\<not> isPoorFrame lms"
    if r: "reachable s" and shown: "alertShown s" and st: "poorPostureStartTime s = Some t0"
      and mono: "t0 + poorPostureDuration s \<le> t"
      and gone: "\<not> alertShown (analyzePosePosture lms t s)"
  proof
    assume p: "isPoorFrame lms"
    from reachable_consistent [OF r] shown have "10000 \<le> poorPostureDuration s"
      by (simp add: alertConsistent_def)
    with mono poor_frame [OF p st gone] show False by simp
  qed
  have regress: "\<not> alertShown (analyzePosePosture lms t s)
          \<and> postureDisplay_className (analyzePosePosture lms t s) = ''posture-display poor''"
    if "isPoorFrame lms" and "poorPostureStartTime s = Some t0" and "t - t0 < 10000"
    using poor_frame_fields(6,9) [OF that(1), of t s] that(2,3) by (simp add: dwell_def)
  have stop: "\<not> alertShown (stopCamera s)"
    "postureDisplay_className (stopCamera s) = postureDisplay_className s"
    by (simp_all add: stopCamera_def)
  have fair: "postureThresholds ''fair'' = None" by simp
  show ?thesis
    using fair cb fire general steady reset_frame regress stop by blast
qed

theorem auto_hide_never_fires_witness:
  "reachable alertedState \<and> alertShown alertedState
   \<and> poorPostureStartTime alertedState = Some 0
   \<and> 0 + poorPostureDuration alertedState \<le> 10500
   \<and> alertShown (fireTimeout 1 alertedState)
   \<and> \<not> alertShown (analyzePosePosture uprightFrame 10500 alertedState)
   \<and> \<not> isPoorFrame uprightFrame
   \<and> postureDisplay_className (analyzePosePosture uprightFrame 10500 alertedState)
        = ''posture-display good''
   \<and> poorPostureStartTime (analyzePosePosture uprightFrame 10500 alertedState) = None
   \<and> isPoorFrame slouchFrame
   \<and> \<not> alertShown (analyzePosePosture slouchFrame 5000 alertedState)
   \<and> \<not> alertShown (stopCamera alertedState)"
proof -
  have st: "poorPostureStartTime alertedState = Some 0"
    and du: "poorPostureDuration alertedState = 10000"
    by (simp_all add: alertedState_def poor_frame_fields [OF slouch_poor] dwell_def initialState_def)
  have a: "(160::real) \<le> 180" by simp
  have gone: "\<not> alertShown (analyzePosePosture uprightFrame 10500 alertedState)"
    and cls: "postureDisplay_className (analyzePosePosture uprightFrame 10500 alertedState)
        = ''posture-display good''"
    by (simp_all add: good_fair_frame_step [OF upright_angle a])
  have np: "\<not> isPoorFrame uprightFrame" by (simp add: isPoorFrame_def upright_angle)
  from auto_hide_never_fires [of "alertedState" 1 0 uprightFrame 10500]
    auto_hide_never_fires [of "alertedState" 1 0 slouchFrame 5000]
  show ?thesis
    using alerted_reachable alerted_shown st du gone cls np slouch_poor by simp
qed

theorem auto_hide_never_fires_counterexample:
  "reachable alertedState \<and> alertShown alertedState
   \<and> alertShown (fireTimeout 1 alertedState)
   \<and> postureDisplay_className (analyzePosePosture slouchFrame 5000 alertedState)
        = ''posture-display poor''
   \<and> \<not> alertShown (analyzePosePosture slouchFrame 5000 alertedState)
   \<and> postureDisplay_className (stopCamera alertedState) = ''posture-display poor''
   \<and> \<not> alertShown (stopCamera alertedState)"
proof -
  have st: "poorPostureStartTime alertedState = Some 0"
    by (simp add: alertedState_def poor_frame_fields [OF slouch_poor] dwell_def initialState_def)
  have cls0: "postureDisplay_className alertedState = ''posture-display poor''"
    by (simp add: alertedState_def poor_frame_fields [OF slouch_poor])
  have fire: "alertShown (fireTimeout 1 alertedState)"
    using alerted_shown by (simp add: fireTimeout_def autoHideCallback_def)
  have poor: "postureDisplay_className (analyzePosePosture slouchFrame 5000 alertedState)
        = ''posture-display poor''"
    "\<not> alertShown (analyzePosePosture slouchFrame 5000 alertedState)"
    using st by (simp_all add: poor_frame_fields [OF slouch_poor] dwell_def)
  have stop: "postureDisplay_className (stopCamera alertedState) = ''posture-display poor''"
    "\<not> alertShown (stopCamera alertedState)"
    using cls0 by (simp_all add: stopCamera_def)
  show ?thesis
    using alerted_reachable alerted_shown fire poor stop by simp
qed

text \<open>
  C5. A frame that passes the visibility check is classified by its angle with
  inclusive lower bounds: \<^verbatim>\<open>good\<close> from 168 up, \<^verbatim>\<open>fair\<close> from 160 up to (but not
  including) 168, \<^verbatim>\<open>poor\<close> below 160. In particular an angle of exactly 168 is good, an
  angle of exactly 160 is fair, and every angle strictly below 160 is poor.
\<close>

theorem threshold_boundaries:
  assumes "frameNeckAngle lms = Some a"
  shows "postureDisplay_className (analyzePosePosture lms t s)
         = ''posture-display '' @ (if 168 \<le> a then ''good'' else if 160 \<le> a then ''fair'' else ''poor'')
     \<and> (a = 168 \<longrightarrow> postureDisplay_className (analyzePosePosture lms t s) = ''posture-display good'')
     \<and> (a = 160 \<longrightarrow> postureDisplay_className (analyzePosePosture lms t s) = ''posture-display fair'')
     \<and> (a < 160 \<longrightarrow> postureDisplay_className (analyzePosePosture lms t s) = ''posture-display poor'')"
proof -
  have cls: "postureDisplay_className (analyzePosePosture lms t s)
         = ''posture-display '' @ (if 168 \<le> a then ''good'' else if 160 \<le> a then ''fair'' else ''poor'')"
  proof (cases "160 \<le> a")
    case True
    then show ?thesis by (simp add: good_fair_frame_step [OF assms True])
  next
    case False
    then have "a < 160" by simp
    from poor_frame_class [OF assms this] False show ?thesis by simp
  qed
  show ?thesis using cls by simp
qed

theorem threshold_boundaries_witness:
  "frameNeckAngle (tiltedFrame (pi / 15)) = Some 168
   \<and> postureDisplay_className (analyzePosePosture (tiltedFrame (pi / 15)) 0 initialState)
       = ''posture-display good''
   \<and> frameNeckAngle (tiltedFrame (pi / 9)) = Some 160
   \<and> postureDisplay_className (analyzePosePosture (tiltedFrame (pi / 9)) 0 initialState)
       = ''posture-display fair''
   \<and> frameNeckAngle slouchFrame = Some 135
   \<and> postureDisplay_className (analyzePosePosture slouchFrame 0 initialState)
       = ''posture-display poor''"
  using threshold_boundaries [OF tilted_168, of 0 initialState]
    threshold_boundaries [OF tilted_160, of 0 initialState]
    threshold_boundaries [OF slouch_angle, of 0 initialState]
  by (simp add: tilted_168 tilted_160 slouch_angle)

text \<open>
  C7, as amended. For a frame that passes the visibility check, whose averaged ear
  and averaged shoulder have the same x coordinate and whose averaged ear is not below
  the averaged shoulder (\<open>avgEar.y \<le> avgShoulder.y\<close>, y growing downwards), the
  computed \<^verbatim>\<open>currentNeckAngle\<close> is 180. With the ear below the shoulder the same
  alignment gives 0: see the counterexample.
\<close>

theorem vertical_alignment:
  assumes "averagedPoints lms = Some (avgEar, avgShoulder)"
    and "pt_x avgEar = pt_x avgShoulder"
    and "pt_y avgEar \<le> pt_y avgShoulder"
  shows "currentNeckAngle (analyzePosePosture lms t s) = 180"
proof -
  have "frameNeckAngle lms = Some 180"
    using assms by (simp add: averaged_angle neck_angle_vertical)
  then show ?thesis by (rule frame_angle_stored)
qed

theorem vertical_alignment_witness:
  "averagedPoints uprightFrame = Some (\<lparr>pt_x = 0.5, pt_y = 0.25\<rparr>, \<lparr>pt_x = 0.5, pt_y = 0.5\<rparr>)
   \<and> currentNeckAngle (analyzePosePosture uprightFrame 0 initialState) = 180"
  using vertical_alignment [OF upright_points, of 0 initialState] upright_points by simp

theorem vertical_alignment_counterexample:
  "hasGoodVisibility invertedFrame
   \<and> averagedPoints invertedFrame = Some (\<lparr>pt_x = 0.5, pt_y = 0.75\<rparr>, \<lparr>pt_x = 0.5, pt_y = 0.25\<rparr>)
   \<and> currentNeckAngle (analyzePosePosture invertedFrame 0 initialState) = 0
   \<and> currentNeckAngle (analyzePosePosture invertedFrame 0 initialState) \<noteq> 180"
proof -
  have "hasGoodVisibility invertedFrame"
    by (simp add: invertedFrame_def pose_frame_gate visibility_or_1_def landmark_def)
  then show ?thesis
    by (simp add: inverted_points frame_angle_stored [OF inverted_angle])
qed




text \<open>
  C9, as amended. When the visibility check fails, \<^verbatim>\<open>currentNeckAngle\<close> keeps the value
  of the last valid computation, and the status published for the frame does not
  report it: the angle text is written from the placeholder \<^verbatim>\<open>'?'\<close> that the
  low-visibility path passes in place of the angle, and is the same text whatever the
  state before the frame was.
\<close>

theorem stale_angle_not_published:
  assumes "\<not> hasGoodVisibility lms"
  shows "currentNeckAngle (analyzePosePosture lms t s) = currentNeckAngle s
     \<and> neckAngle_textContent (analyzePosePosture lms t s) = round_text QuestionMark @ degree_sign
     \<and> neckAngle_textContent (analyzePosePosture lms t s')
         = neckAngle_textContent (analyzePosePosture lms t s)"
  by (simp add: unknown_frame_step [OF assms])

theorem stale_angle_not_published_witness:
  "\<not> hasGoodVisibility hiddenFrame
   \<and> currentNeckAngle slouchedState = 135
   \<and> currentNeckAngle (analyzePosePosture hiddenFrame 100 slouchedState) = 135
   \<and> neckAngle_textContent (analyzePosePosture hiddenFrame 100 slouchedState)
       = round_text QuestionMark @ degree_sign
   \<and> neckAngle_textContent (analyzePosePosture hiddenFrame 100 initialState)
       = neckAngle_textContent (analyzePosePosture hiddenFrame 100 slouchedState)"
proof -
  have a: "currentNeckAngle slouchedState = 135"
    unfolding slouchedState_def using slouch_angle by (rule frame_angle_stored)
  from stale_angle_not_published [OF hidden_gate, of 100 slouchedState initialState]
  show ?thesis using hidden_gate a by simp
qed

theorem stale_angle_not_published_counterexample:
  "\<not> hasGoodVisibility hiddenFrame
   \<and> currentNeckAngle slouchedState = 135
   \<and> neckAngle_textContent slouchedState = ''135'' @ degree_sign
   \<and> currentNeckAngle (analyzePosePosture hiddenFrame 100 slouchedState) = 135
   \<and> neckAngle_textContent (analyzePosePosture hiddenFrame 100 slouchedState) = ''NaN'' @ degree_sign
   \<and> neckAngle_textContent (analyzePosePosture hiddenFrame 100 slouchedState)
       \<noteq> show_int (math_round (currentNeckAngle slouchedState)) @ degree_sign"
proof -
  have a: "currentNeckAngle slouchedState = 135"
    unfolding slouchedState_def using slouch_angle by (rule frame_angle_stored)
  have "neckAngle_textContent slouchedState = show_int (math_round 135) @ degree_sign"
    by (simp add: slouchedState_def analyze_by_angle slouch_angle hpp_text)
  then have b: "neckAngle_textContent slouchedState = ''135'' @ degree_sign"
    by (simp add: show_135)
  show ?thesis
    using hidden_gate a b by (simp add: unknown_frame_step [OF hidden_gate] show_135)
qed

text \<open>
  C10. When the four required landmarks are present and each has a visibility that is
  missing, exactly 0, or above 0.6, the visibility check passes: a visibility of 0 counts
  as 1, like a missing one. The angle is computed from the four landmarks and stored,
  and the frame is classified, not reported \<^verbatim>\<open>unknown\<close>.
\<close>

theorem zero_visibility_passes:
  assumes "js_index lms 7 = Some leftEar" and "js_index lms 8 = Some rightEar"
    and "js_index lms 11 = Some leftShoulder" and "js_index lms 12 = Some rightShoulder"
    and "list_all (\<lambda>k. case visibility k of None \<Rightarrow> True | Some v \<Rightarrow> v = 0 \<or> 0.6 < v)
           [leftEar, rightEar, leftShoulder, rightShoulder]"
  shows "hasGoodVisibility lms
     \<and> currentNeckAngle (analyzePosePosture lms t s)
         = neckAngle (average leftEar rightEar) (average leftShoulder rightShoulder)
     \<and> postureDisplay_className (analyzePosePosture lms t s) \<noteq> ''posture-display unknown''"
proof -
  have vis: "0.6 < visibility_or_1 k"
    if "case visibility k of None \<Rightarrow> True | Some v \<Rightarrow> v = 0 \<or> 0.6 < v" for k
    using that by (auto simp: visibility_or_1_def split: option.splits)
  from assms(5) have c:
    "case visibility leftEar of None \<Rightarrow> True | Some v \<Rightarrow> v = 0 \<or> 0.6 < v"
    "case visibility rightEar of None \<Rightarrow> True | Some v \<Rightarrow> v = 0 \<or> 0.6 < v"
    "case visibility leftShoulder of None \<Rightarrow> True | Some v \<Rightarrow> v = 0 \<or> 0.6 < v"
    "case visibility rightShoulder of None \<Rightarrow> True | Some v \<Rightarrow> v = 0 \<or> 0.6 < v"
    by simp_all
  have "0.6 < visibility_or_1 leftEar" "0.6 < visibility_or_1 rightEar"
    "0.6 < visibility_or_1 leftShoulder" "0.6 < visibility_or_1 rightShoulder"
    by (rule vis, rule c)+
  then have gate: "hasGoodVisibility lms"
    using assms(1-4) by (simp add: hasGoodVisibility_def requiredLandmarks_def)
  let ?a = "neckAngle (average leftEar rightEar) (average leftShoulder rightShoulder)"
  have ang: "frameNeckAngle lms = Some ?a"
    using gate assms(1-4) by (simp add: frameNeckAngle_def)
  have cls: "postureDisplay_className (analyzePosePosture lms t s) \<noteq> ''posture-display unknown''"
  proof (cases "160 \<le> ?a")
    case True
    then show ?thesis by (simp add: good_fair_frame_step [OF ang True])
  next
    case False
    then have "?a < 160" by simp
    from poor_frame_class [OF ang this] show ?thesis by simp
  qed
  show ?thesis using gate cls frame_angle_stored [OF ang] by simp
qed

theorem zero_visibility_passes_witness:
  "visibility (landmark 0.5 0.25 0) = Some 0
   \<and> hasGoodVisibility occludedEarFrame
   \<and> currentNeckAngle (analyzePosePosture occludedEarFrame 0 initialState) = 180
   \<and> postureDisplay_className (analyzePosePosture occludedEarFrame 0 initialState)
       \<noteq> ''posture-display unknown''"
proof -
  have v: "list_all (\<lambda>k. case visibility k of None \<Rightarrow> True | Some v \<Rightarrow> v = 0 \<or> 0.6 < v)
             [landmark 0.5 0.25 0, landmark 0.5 0.25 0.9, landmark 0.5 0.5 0.9, landmark 0.5 0.5 0.9]"
    by (simp add: landmark_def)
  have n: "neckAngle (average (landmark 0.5 0.25 0) (landmark 0.5 0.25 0.9))
             (average (landmark 0.5 0.5 0.9) (landmark 0.5 0.5 0.9)) = 180"
    by (rule neck_angle_vertical) (simp_all add: average_def landmark_def)
  have z: "visibility (landmark 0.5 0.25 0) = Some 0" by (simp add: landmark_def)
  have i: "js_index occludedEarFrame 7 = Some (landmark 0.5 0.25 0)"
    "js_index occludedEarFrame 8 = Some (landmark 0.5 0.25 0.9)"
    "js_index occludedEarFrame 11 = Some (landmark 0.5 0.5 0.9)"
    "js_index occludedEarFrame 12 = Some (landmark 0.5 0.5 0.9)"
    unfolding occludedEarFrame_def by (rule pose_frame_index)+
  from zero_visibility_passes [OF i v, of 0 initialState] n z
  show ?thesis by simp
qed

text \<open>
  C1, at a frame whose left ear has visibility 0 (the other three required landmarks
  at 0.9, ears straight above the shoulders): the visibility check passes and the frame
  is published as \<^verbatim>\<open>good\<close> with the title \<^verbatim>\<open>Excellent Posture!\<close>, where the property
  asks for \<^verbatim>\<open>unknown\<close>. For every frame on which the check does fail, the status and the
  reset are as the property says (\<open>gate_failure_resets\<close>, \<open>gate_fails\<close>).
\<close>

theorem zero_visibility_frame_classified:
  "js_index occludedEarFrame 7 = Some (landmark 0.5 0.25 0)
   \<and> visibility (landmark 0.5 0.25 0) = Some 0
   \<and> hasGoodVisibility occludedEarFrame
   \<and> postureDisplay_className (analyzePosePosture occludedEarFrame 0 initialState)
       = ''posture-display good''
   \<and> statusTitle_textContent (analyzePosePosture occludedEarFrame 0 initialState)
       = ''Excellent Posture!''"
proof -
  have gate: "hasGoodVisibility occludedEarFrame"
    by (simp add: occludedEarFrame_def pose_frame_gate visibility_or_1_def landmark_def)
  have "neckAngle (average (landmark 0.5 0.25 0) (landmark 0.5 0.25 0.9))
             (average (landmark 0.5 0.5 0.9) (landmark 0.5 0.5 0.9)) = 180"
    by (rule neck_angle_vertical) (simp_all add: average_def landmark_def)
  then have ang: "frameNeckAngle occludedEarFrame = Some 180"
    using gate by (simp add: occludedEarFrame_def pose_frame_angle)
  have a: "(160::real) \<le> 180" by simp
  show ?thesis
    using gate
    by (simp add: good_fair_frame_step [OF ang a])
       (simp add: occludedEarFrame_def pose_frame_index landmark_def)
qed

end
